theory Spec2Isabelle
  imports Complex_Main "HOL-Library.Sublist"
begin

section \<open>Condition algebra (conditions/base.py)\<close>

text \<open>
  Prices and every other Python float of the engine are modelled as real numbers,
  except in the Fibonacci levels of a range, which are computed on doubles; Python
  ints that index bars are natural numbers.
\<close>

datatype ConditionResult = TRUE | FALSE | NEUTRAL

fun ConditionResult_value :: "ConditionResult \<Rightarrow> string" where
  "ConditionResult_value TRUE = ''true''"
| "ConditionResult_value FALSE = ''false''"
| "ConditionResult_value NEUTRAL = ''neutral''"

text \<open>The entries of the dictionary \<open>vals\<close> (the field \<open>values\<close> of the source) of an
  evaluation result.\<close>

datatype pyval = PStr string | PNum real | PDict "(string \<times> pyval) list"

record EvaluationResult =
  result :: ConditionResult
  condition_name :: string
  details :: string
  vals :: "(string \<times> pyval) list"

definition is_true :: "EvaluationResult \<Rightarrow> bool" where
  "is_true r = (result r = TRUE)"

definition is_false :: "EvaluationResult \<Rightarrow> bool" where
  "is_false r = (result r = FALSE)"

definition is_neutral :: "EvaluationResult \<Rightarrow> bool" where
  "is_neutral r = (result r = NEUTRAL)"

text \<open>
  A condition tree. \<open>Atom\<close> stands for any concrete condition: its name and its
  \<open>evaluate\<close> method as a function of the environment \<open>'e\<close> (the candle table
  together with the keyword context).
\<close>

datatype 'e condition =
    Atom string "'e \<Rightarrow> EvaluationResult"
  | AndCondition "'e condition" "'e condition"
  | OrCondition "'e condition" "'e condition"
  | NotCondition "'e condition"

fun name :: "'e condition \<Rightarrow> string" where
  "name (Atom n f) = n"
| "name (AndCondition cond1 cond2) = ''('' @ name cond1 @ '' AND '' @ name cond2 @ '')''"
| "name (OrCondition cond1 cond2) = ''('' @ name cond1 @ '' OR '' @ name cond2 @ '')''"
| "name (NotCondition c) = ''NOT('' @ name c @ '')''"

fun evaluate :: "'e condition \<Rightarrow> 'e \<Rightarrow> EvaluationResult" where
  "evaluate (Atom n f) env = f env"
| "evaluate (AndCondition cond1 cond2) env =
     (let result1 = evaluate cond1 env; result2 = evaluate cond2 env in
      if is_false result1 \<or> is_false result2 then
        \<lparr>result = FALSE, condition_name = name (AndCondition cond1 cond2),
         details = ''Failed: '' @ (if is_false result1 then details result1 else details result2),
         vals = [(''cond1'', PStr (ConditionResult_value (result result1))),
                   (''cond2'', PStr (ConditionResult_value (result result2)))]\<rparr>
      else if is_true result1 \<and> is_true result2 then
        \<lparr>result = TRUE, condition_name = name (AndCondition cond1 cond2),
         details = ''Both conditions met'',
         vals = [(''cond1'', PDict (vals result1)), (''cond2'', PDict (vals result2))]\<rparr>
      else
        \<lparr>result = NEUTRAL, condition_name = name (AndCondition cond1 cond2),
         details = ''One or more conditions neutral'', vals = []\<rparr>)"
| "evaluate (OrCondition cond1 cond2) env =
     (let result1 = evaluate cond1 env; result2 = evaluate cond2 env in
      if is_true result1 \<or> is_true result2 then
        \<lparr>result = TRUE, condition_name = name (OrCondition cond1 cond2),
         details = ''Passed: '' @ (if is_true result1 then details result1 else details result2),
         vals = [(''cond1'', PDict (vals result1)), (''cond2'', PDict (vals result2))]\<rparr>
      else if is_false result1 \<and> is_false result2 then
        \<lparr>result = FALSE, condition_name = name (OrCondition cond1 cond2),
         details = ''Both conditions failed'', vals = []\<rparr>
      else
        \<lparr>result = NEUTRAL, condition_name = name (OrCondition cond1 cond2),
         details = ''Neither condition met, one neutral'', vals = []\<rparr>)"
| "evaluate (NotCondition c) env =
     (let r = evaluate c env in
      if is_true r then
        \<lparr>result = FALSE, condition_name = name (NotCondition c),
         details = ''Inverted from TRUE'', vals = vals r\<rparr>
      else if is_false r then
        \<lparr>result = TRUE, condition_name = name (NotCondition c),
         details = ''Inverted from FALSE'', vals = vals r\<rparr>
      else
        \<lparr>result = NEUTRAL, condition_name = name (NotCondition c),
         details = ''NEUTRAL unchanged'', vals = []\<rparr>)"

section \<open>Candle tables\<close>

text \<open>
  A candle table is a data frame: its rows, and which of the two time columns it has
  (a row's \<open>timestamp\<close> or \<open>datetime\<close> field is read only when the table has
  that column). Times are integers (milliseconds); \<open>pd.to_datetime\<close> is the identity
  on them. The column \<open>open\<close> is the field \<open>open_price\<close>.
\<close>

record bar =
  timestamp :: int
  datetime :: int
  open_price :: real
  high :: real
  low :: real
  close :: real
  volume :: real

record candles =
  has_timestamp :: bool
  has_datetime :: bool
  bars :: "bar list"

section \<open>Swing detection (patterns/swings.py)\<close>

datatype SwingType = SWING_HIGH | SWING_LOW

datatype StructureType = HIGHER_HIGH | HIGHER_LOW | LOWER_HIGH | LOWER_LOW

record SwingPoint =
  index :: nat
  price :: real
  swing_type :: SwingType
  confirmed_at_index :: nat
  sp_timestamp :: "int option"
  confirmed_at_timestamp :: "int option"
  struct :: "StructureType option"

definition is_high :: "SwingPoint \<Rightarrow> bool" where
  "is_high s = (swing_type s = SWING_HIGH)"

definition is_low :: "SwingPoint \<Rightarrow> bool" where
  "is_low s = (swing_type s = SWING_LOW)"

text \<open>
  The attribute \<open>structure\<close> of a swing point is the field \<open>struct\<close>. The dictionaries
  \<open>{index: i, price: p}\<close> of the detector are pairs.
\<close>

type_synonym cursor = "nat \<times> real"

record swing_state =
  swings :: "SwingPoint list"
  current_swing_high :: cursor
  current_swing_low :: cursor
  highest_since_low :: cursor
  lowest_since_high :: cursor

definition time_at :: "candles \<Rightarrow> nat \<Rightarrow> int option" where
  "time_at c i =
     (if has_timestamp c \<or> has_datetime c
      then Some (if has_datetime c then datetime (bars c ! i) else timestamp (bars c ! i))
      else None)"

text \<open>The structure of a new swing against the previous swings of its kind.\<close>

definition classify ::
  "SwingPoint list \<Rightarrow> real \<Rightarrow> StructureType \<Rightarrow> StructureType \<Rightarrow> StructureType option" where
  "classify prev p higher lower =
     (if prev = [] then None
      else if p > price (last prev) then Some higher else Some lower)"

text \<open>The body of the loop of \<open>detect_swings\<close> at bar \<open>i\<close>.\<close>

definition swing_step :: "bool \<Rightarrow> candles \<Rightarrow> swing_state \<Rightarrow> nat \<Rightarrow> swing_state" where
  "swing_step use_close c st i =
     (let h = high (bars c ! i); l = low (bars c ! i); cl = close (bars c ! i);
          break_price_up = (if use_close then cl else h);
          break_price_down = (if use_close then cl else l);
          hsl = (if h > snd (highest_since_low st) then (i, h) else highest_since_low st);
          lsh = (if l < snd (lowest_since_high st) then (i, l) else lowest_since_high st)
      in
      if break_price_up > snd (current_swing_high st) then
        (if fst lsh < i then
           st\<lparr>swings := swings st @
                 [\<lparr>index = fst lsh, price = snd lsh, swing_type = SWING_LOW,
                   confirmed_at_index = i, sp_timestamp = time_at c (fst lsh),
                   confirmed_at_timestamp = time_at c i,
                   struct = classify (filter is_low (swings st)) (snd lsh)
                                 HIGHER_LOW LOWER_LOW\<rparr>],
              current_swing_low := lsh,
              current_swing_high := (i, h), highest_since_low := (i, h),
              lowest_since_high := (i, l)\<rparr>
         else
           st\<lparr>current_swing_high := (i, h), highest_since_low := (i, h),
              lowest_since_high := (i, l)\<rparr>)
      else if break_price_down < snd (current_swing_low st) then
        (if fst hsl < i then
           st\<lparr>swings := swings st @
                 [\<lparr>index = fst hsl, price = snd hsl, swing_type = SWING_HIGH,
                   confirmed_at_index = i, sp_timestamp = time_at c (fst hsl),
                   confirmed_at_timestamp = time_at c i,
                   struct = classify (filter is_high (swings st)) (snd hsl)
                                 HIGHER_HIGH LOWER_HIGH\<rparr>],
              current_swing_high := hsl,
              current_swing_low := (i, l), lowest_since_high := (i, l),
              highest_since_low := (i, h)\<rparr>
         else
           st\<lparr>current_swing_low := (i, l), lowest_since_high := (i, l),
              highest_since_low := (i, h)\<rparr>)
      else st\<lparr>highest_since_low := hsl, lowest_since_high := lsh\<rparr>)"

definition swing_init :: "candles \<Rightarrow> swing_state" where
  "swing_init c =
     \<lparr>swings = [],
      current_swing_high = (0, high (bars c ! 0)),
      current_swing_low = (0, low (bars c ! 0)),
      highest_since_low = (0, high (bars c ! 0)),
      lowest_since_high = (0, low (bars c ! 0))\<rparr>"

definition swing_loop :: "bool \<Rightarrow> candles \<Rightarrow> swing_state" where
  "swing_loop use_close c =
     foldl (swing_step use_close c) (swing_init c) [1..<length (bars c)]"

text \<open>
  \<open>detect_swings\<close>: fewer than three bars give no swing; the final
  \<open>swings.sort(key=lambda x: x.index)\<close> is a stable sort.
\<close>

definition detect_swings :: "bool \<Rightarrow> candles \<Rightarrow> SwingPoint list" where
  "detect_swings use_close c =
     (if length (bars c) < 3 then []
      else sort_key index (swings (swing_loop use_close c)))"

definition detect_major_swings :: "bool \<Rightarrow> candles \<Rightarrow> SwingPoint list" where
  "detect_major_swings use_close c = detect_swings use_close c"

subsection \<open>StructureAnalyzer.analyze\<close>

text \<open>
  The dictionary that \<open>analyze\<close> returns: the keys \<open>highs\<close>, \<open>lows\<close> and the four
  counts are absent (\<open>None\<close>) on the early return, where \<open>key_levels\<close> is empty.
\<close>

record analysis =
  trend :: string
  an_swings :: "SwingPoint list"
  an_highs :: "SwingPoint list option"
  an_lows :: "SwingPoint list option"
  key_levels :: "(string \<times> real option) list"
  hh_count :: "nat option"
  hl_count :: "nat option"
  lh_count :: "nat option"
  ll_count :: "nat option"

text \<open>\<open>swings[-6:] if len(swings) >= 6 else swings\<close>\<close>

definition recent_swings :: "SwingPoint list \<Rightarrow> SwingPoint list" where
  "recent_swings sw = (if length sw \<ge> 6 then drop (length sw - 6) sw else sw)"

definition count_structure :: "StructureType \<Rightarrow> SwingPoint list \<Rightarrow> nat" where
  "count_structure k sw = length (filter (\<lambda>s. struct s = Some k) sw)"

text \<open>\<open>xs[-1].price if xs else None\<close> and \<open>xs[-2].price if len(xs) > 1 else None\<close>\<close>

definition last_price :: "SwingPoint list \<Rightarrow> real option" where
  "last_price xs = (if xs = [] then None else Some (price (last xs)))"

definition prev_price :: "SwingPoint list \<Rightarrow> real option" where
  "prev_price xs = (if length xs > 1 then Some (price (xs ! (length xs - 2))) else None)"

definition analyze :: "bool \<Rightarrow> candles \<Rightarrow> analysis" where
  "analyze use_close c =
     (let sw = detect_swings use_close c in
      if length sw < 4 then
        \<lparr>trend = ''unknown'', an_swings = sw, an_highs = None, an_lows = None,
         key_levels = [], hh_count = None, hl_count = None, lh_count = None,
         ll_count = None\<rparr>
      else
        let recent = recent_swings sw;
            hh = count_structure HIGHER_HIGH recent;
            hl = count_structure HIGHER_LOW recent;
            lh = count_structure LOWER_HIGH recent;
            ll = count_structure LOWER_LOW recent;
            highs = filter is_high sw;
            lows = filter is_low sw
        in
        \<lparr>trend = (if hh \<ge> 1 \<and> hl \<ge> 1 then ''uptrend''
                  else if lh \<ge> 1 \<and> ll \<ge> 1 then ''downtrend''
                  else ''ranging''),
         an_swings = sw, an_highs = Some highs, an_lows = Some lows,
         key_levels = [(''last_swing_high'', last_price highs),
                       (''last_swing_low'', last_price lows),
                       (''prev_swing_high'', prev_price highs),
                       (''prev_swing_low'', prev_price lows)],
         hh_count = Some hh, hl_count = Some hl, lh_count = Some lh,
         ll_count = Some ll\<rparr>)"

section \<open>Range detection (patterns/range\_detector.py)\<close>

datatype RangeStatus = FORMING | CONFIRMED | BROKEN_UP | BROKEN_DOWN

text \<open>
  The attributes \<open>high\<close> and \<open>low\<close> of a range are the fields \<open>r_high\<close> and
  \<open>r_low\<close>; \<open>status\<close> is \<open>r_status\<close>.
\<close>

record Range =
  r_high :: real
  r_low :: real
  start_index :: nat
  end_index :: "nat option"
  high_touches :: nat
  low_touches :: nat
  r_status :: RangeStatus
  high_swing :: "SwingPoint option"
  low_swing :: "SwingPoint option"

definition height :: "Range \<Rightarrow> real" where
  "height r = r_high r - r_low r"


definition total_touches :: "Range \<Rightarrow> nat" where
  "total_touches r = high_touches r + low_touches r"

definition is_valid :: "Range \<Rightarrow> nat \<Rightarrow> bool" where
  "is_valid r min_t = (total_touches r \<ge> min_t)"

definition is_active :: "Range \<Rightarrow> bool" where
  "is_active r = (r_status r \<in> set [FORMING, CONFIRMED])"

text \<open>
  The detector's parameters; \<open>rd_use_close\<close> is the \<open>use_close\<close> of its swing
  detector. The three counts are natural numbers: a negative Python int behaves there
  as 0 does.
\<close>

record RangeDetector =
  touch_tolerance_pct :: real
  min_touches :: nat
  min_range_bars :: nat
  max_range_bars :: nat
  rd_use_close :: bool

definition RANGE_DETECTOR_DEFAULT :: RangeDetector where
  "RANGE_DETECTOR_DEFAULT =
     \<lparr>touch_tolerance_pct = 0.3, min_touches = 3, min_range_bars = 10,
      max_range_bars = 100, rd_use_close = True\<rparr>"

text \<open>
  The forward scan of \<open>_create_range\<close> over the bar indices \<open>is\<close>, with the touch
  counts so far: \<open>Inl\<close> is the early return at a breakout (the bar, the status and the
  counts), \<open>Inr\<close> the counts at the end of the window. \<open>rh\<close>, \<open>rl\<close> and \<open>tol\<close> are
  \<open>range_high\<close>, \<open>range_low\<close> and \<open>tolerance\<close>.
\<close>

fun scan_touches ::
  "candles \<Rightarrow> real \<Rightarrow> real \<Rightarrow> real \<Rightarrow> nat list \<Rightarrow> nat \<Rightarrow> nat
     \<Rightarrow> (nat \<times> RangeStatus \<times> nat \<times> nat) + (nat \<times> nat)" where
  "scan_touches c rh rl tol [] ht lt = Inr (ht, lt)"
| "scan_touches c rh rl tol (i # is) ht lt =
     (let bar_high = high (bars c ! i); bar_low = low (bars c ! i);
          ht' = (if bar_high \<ge> rh - tol then ht + 1 else ht);
          lt' = (if bar_low \<le> rl + tol then lt + 1 else lt)
      in
      if bar_high > rh + tol then Inl (i, BROKEN_UP, ht', lt')
      else if bar_low < rl - tol then Inl (i, BROKEN_DOWN, ht', lt')
      else scan_touches c rh rl tol is ht' lt')"

definition create_range :: "RangeDetector \<Rightarrow> candles \<Rightarrow> SwingPoint \<Rightarrow> SwingPoint \<Rightarrow> Range option" where
  "create_range d c hs ls =
     (let start_idx = min (index hs) (index ls);
          end_idx = max (index hs) (index ls)
      in
      if end_idx - start_idx < min_range_bars d then None
      else
        let range_high = price hs; range_low = price ls;
            range_height = range_high - range_low;
            tolerance = range_height * (touch_tolerance_pct d / 100)
        in
        (case scan_touches c range_high range_low tolerance
                [end_idx ..< min (length (bars c)) (end_idx + max_range_bars d)] 0 0 of
           Inl (i, st, ht, lt) \<Rightarrow>
             Some \<lparr>r_high = range_high, r_low = range_low, start_index = start_idx,
                   end_index = Some i, high_touches = ht, low_touches = lt,
                   r_status = st, high_swing = Some hs, low_swing = Some ls\<rparr>
         | Inr (ht, lt) \<Rightarrow>
             Some \<lparr>r_high = range_high, r_low = range_low, start_index = start_idx,
                   end_index = Some (length (bars c) - 1), high_touches = ht,
                   low_touches = lt,
                   r_status = (if ht + lt \<ge> min_touches d then CONFIRMED else FORMING),
                   high_swing = Some hs, low_swing = Some ls\<rparr>))"

text \<open>
  The candidate of a swing high: the range built with the first later swing low, when
  there is one. A \<open>Range\<close> object is always truthy, so \<open>if range_obj and ...\<close> only
  tests for \<open>None\<close>.
\<close>

definition candidate :: "RangeDetector \<Rightarrow> candles \<Rightarrow> SwingPoint list \<Rightarrow> SwingPoint \<Rightarrow> Range option" where
  "candidate d c low_swings swing =
     (if is_high swing then
        (case filter (\<lambda>s. index s > index swing) low_swings of
           [] \<Rightarrow> None
         | next_low # _ \<Rightarrow> create_range d c swing next_low)
      else None)"

definition detect_ranges :: "RangeDetector \<Rightarrow> candles \<Rightarrow> Range list" where
  "detect_ranges d c =
     (let sw = detect_major_swings (rd_use_close d) c in
      if length sw < 2 then []
      else
        let low_swings = filter is_low sw in
        concat (map (\<lambda>swing.
                  (case candidate d c low_swings swing of
                     None \<Rightarrow> []
                   | Some range_obj \<Rightarrow>
                       if is_valid range_obj (min_touches d) then [range_obj] else []))
                (butlast sw)))"

definition detect_current_range :: "RangeDetector \<Rightarrow> candles \<Rightarrow> Range option" where
  "detect_current_range d c =
     (let active_ranges = filter is_active (detect_ranges d c) in
      if active_ranges = [] then None else Some (last active_ranges))"

section \<open>Structure breaks (patterns/structure\_breaks.py)\<close>



text \<open>
  \<open>BOSDetector\<close> and \<open>MSBDetector\<close> have the same three attributes:
  \<open>sd_use_close\<close> is the \<open>use_close\<close> of the swing detector, \<open>use_close\<close> the
  detector's own.
\<close>

record BreakDetector =
  sd_use_close :: bool
  confirmation_bars :: nat
  use_close :: bool















section \<open>Strategy loader (engine/system\_parser.py)\<close>

datatype py_error = AttributeError | TypeError | ValueError | IndexError

text \<open>
  What \<open>yaml.safe_load\<close> returns: a dictionary is the list of its items, looked up
  with \<open>map_of\<close>.
\<close>

datatype yaml =
    YNull
  | YBool bool
  | YNum real
  | YStr string
  | YList "yaml list"
  | YDict "(string \<times> yaml) list"

text \<open>\<open>data.get(key, default)\<close> on a dictionary.\<close>

definition dict_get :: "(string \<times> yaml) list \<Rightarrow> string \<Rightarrow> yaml \<Rightarrow> yaml" where
  "dict_get kvs k dflt = (case map_of kvs k of None \<Rightarrow> dflt | Some v \<Rightarrow> v)"

text \<open>\<open>v.get\<close> exists only when \<open>v\<close> is a dictionary.\<close>

definition as_dict :: "yaml \<Rightarrow> py_error + (string \<times> yaml) list" where
  "as_dict v = (case v of YDict kvs \<Rightarrow> Inr kvs | _ \<Rightarrow> Inl AttributeError)"

text \<open>
  \<open>for x in v\<close>: a list gives its elements, a dictionary its keys, a string its
  characters; nothing else is iterable.
\<close>

definition iterate :: "yaml \<Rightarrow> py_error + yaml list" where
  "iterate v =
     (case v of
        YList xs \<Rightarrow> Inr xs
      | YDict kvs \<Rightarrow> Inr (map (\<lambda>kv. YStr (fst kv)) kvs)
      | YStr str \<Rightarrow> Inr (map (\<lambda>ch. YStr [ch]) str)
      | _ \<Rightarrow> Inl TypeError)"

text \<open>Python's truth value, as \<open>not v\<close> reads it.\<close>

definition falsy :: "yaml \<Rightarrow> bool" where
  "falsy v =
     (case v of
        YNull \<Rightarrow> True
      | YBool b \<Rightarrow> \<not> b
      | YNum x \<Rightarrow> x = 0
      | YStr str \<Rightarrow> str = []
      | YList xs \<Rightarrow> xs = []
      | YDict kvs \<Rightarrow> kvs = [])"

definition CONDITION_TYPES :: "string list" where
  "CONDITION_TYPES =
     [''bos_occurred'', ''msb_occurred'', ''in_range'', ''at_75_fib'', ''at_25_fib'',
      ''false_breakout'', ''in_uptrend'', ''in_downtrend'', ''is_ranging'',
      ''retest_occurred'',
      ''price_above'', ''price_below'', ''price_near'', ''price_crossed_above'',
      ''price_crossed_below'', ''price_in_range'', ''candle_direction'',
      ''consecutive_candles'',
      ''ema_alignment'', ''price_above_ema'', ''price_below_ema'', ''rsi_level'',
      ''vwap_slope'', ''price_above_vwap'', ''price_below_vwap'', ''volume_spike'',
      ''adx_trending'', ''macd_crossover'']"

text \<open>
  The lines the loader prints: \<open>Unknown condition type: {cond_type}\<close> and
  \<open>Error creating condition {cond_type}: {e}\<close>.
\<close>

datatype warning = UnknownConditionType yaml | ErrorCreatingCondition string

text \<open>
  What calling a condition class of the registry with the keyword arguments does: it
  builds a condition, raises \<open>TypeError\<close> (which the loader catches), or raises
  another exception (which it does not). The classes are a parameter \<open>ctor\<close> of the
  loader: the registry's key and the keyword arguments give the outcome.
\<close>

datatype 'c construction = Built 'c | RaisesTypeError | Raises py_error

type_synonym 'c constructors = "string \<Rightarrow> (string \<times> yaml) list \<Rightarrow> 'c construction"

definition parse_condition ::
  "'c constructors \<Rightarrow> yaml \<Rightarrow> py_error + ('c option \<times> warning list)" where
  "parse_condition ctor data =
     (case as_dict data of
        Inl e \<Rightarrow> Inl e
      | Inr kvs \<Rightarrow>
          let cond_type = dict_get kvs ''type'' YNull in
          if falsy cond_type then Inr (None, [])
          else
            (case cond_type of
               YStr t \<Rightarrow>
                 if t \<in> set CONDITION_TYPES then
                   (case ctor t (filter (\<lambda>kv. fst kv \<noteq> ''type'') kvs) of
                      Built cond \<Rightarrow> Inr (Some cond, [])
                    | RaisesTypeError \<Rightarrow> Inr (None, [ErrorCreatingCondition t])
                    | Raises e \<Rightarrow> Inl e)
                 else Inr (None, [UnknownConditionType cond_type])
             | YList xs \<Rightarrow> Inl TypeError
             | YDict d \<Rightarrow> Inl TypeError
             | _ \<Rightarrow> Inr (None, [UnknownConditionType cond_type])))"

text \<open>The loop of \<open>_parse_conditions\<close> over the entries.\<close>

fun parse_entries ::
  "'c constructors \<Rightarrow> yaml list \<Rightarrow> py_error + ('c list \<times> warning list)" where
  "parse_entries ctor [] = Inr ([], [])"
| "parse_entries ctor (cond_data # rest) =
     (case parse_condition ctor cond_data of
        Inl e \<Rightarrow> Inl e
      | Inr (condition, w) \<Rightarrow>
          (case parse_entries ctor rest of
             Inl e \<Rightarrow> Inl e
           | Inr (conditions, ws) \<Rightarrow>
               Inr ((case condition of None \<Rightarrow> [] | Some cond \<Rightarrow> [cond]) @ conditions,
                    w @ ws)))"

definition parse_conditions ::
  "'c constructors \<Rightarrow> yaml \<Rightarrow> py_error + ('c list \<times> warning list)" where
  "parse_conditions ctor conditions_data =
     (case iterate conditions_data of
        Inl e \<Rightarrow> Inl e
      | Inr entries \<Rightarrow> parse_entries ctor entries)"

datatype StopLossType = SL_ATR | SL_PERCENT | SL_FIXED | SL_SWING | SL_LEVEL

datatype TakeProfitType = TP_RISK_REWARD | TP_ATR | TP_PERCENT | TP_FIXED | TP_LEVEL

text \<open>\<open>StopLossType(v)\<close> and \<open>TakeProfitType(v)\<close>: the member with that string.\<close>

definition StopLossType_of :: "yaml \<Rightarrow> py_error + StopLossType" where
  "StopLossType_of v =
     (if v = YStr ''atr'' then Inr SL_ATR
      else if v = YStr ''percent'' then Inr SL_PERCENT
      else if v = YStr ''fixed'' then Inr SL_FIXED
      else if v = YStr ''swing'' then Inr SL_SWING
      else if v = YStr ''level'' then Inr SL_LEVEL
      else Inl ValueError)"

definition TakeProfitType_of :: "yaml \<Rightarrow> py_error + TakeProfitType" where
  "TakeProfitType_of v =
     (if v = YStr ''risk_reward'' then Inr TP_RISK_REWARD
      else if v = YStr ''atr'' then Inr TP_ATR
      else if v = YStr ''percent'' then Inr TP_PERCENT
      else if v = YStr ''fixed'' then Inr TP_FIXED
      else if v = YStr ''level'' then Inr TP_LEVEL
      else Inl ValueError)"

text \<open>
  A dataclass does not check its annotations: a field that the loader fills from the
  document holds whatever the document has there, so these fields are \<open>yaml\<close> values.
\<close>

record StopLossConfig =
  sl_type :: StopLossType
  sl_value :: yaml
  trailing :: yaml
  trailing_activation :: yaml

record TakeProfitConfig =
  tp_type :: TakeProfitType
  tp_value :: yaml
  partial_exits :: yaml

definition StopLossConfig_from_dict :: "yaml \<Rightarrow> py_error + StopLossConfig" where
  "StopLossConfig_from_dict data =
     (case as_dict data of
        Inl e \<Rightarrow> Inl e
      | Inr kvs \<Rightarrow>
          (case StopLossType_of (dict_get kvs ''type'' (YStr ''atr'')) of
             Inl e \<Rightarrow> Inl e
           | Inr t \<Rightarrow>
               Inr \<lparr>sl_type = t,
                    sl_value = dict_get kvs ''multiplier''
                                 (dict_get kvs ''value'' (dict_get kvs ''percent'' (YNum 1.5))),
                    trailing = dict_get kvs ''trailing'' (YBool False),
                    trailing_activation = dict_get kvs ''trailing_activation'' YNull\<rparr>))"

definition TakeProfitConfig_from_dict :: "yaml \<Rightarrow> py_error + TakeProfitConfig" where
  "TakeProfitConfig_from_dict data =
     (case as_dict data of
        Inl e \<Rightarrow> Inl e
      | Inr kvs \<Rightarrow>
          (case TakeProfitType_of (dict_get kvs ''type'' (YStr ''risk_reward'')) of
             Inl e \<Rightarrow> Inl e
           | Inr t \<Rightarrow>
               Inr \<lparr>tp_type = t,
                    tp_value = dict_get kvs ''ratio''
                                 (dict_get kvs ''value'' (dict_get kvs ''multiplier'' (YNum 3.0))),
                    partial_exits = dict_get kvs ''partial_exits'' YNull\<rparr>))"

record 'c TradingSystem =
  sys_name :: yaml
  timeframe :: yaml
  direction :: yaml
  entry_conditions :: "'c list"
  sys_stop_loss :: StopLossConfig
  sys_take_profit :: TakeProfitConfig
  filters :: "'c list"
  risk_percent :: yaml
  max_positions :: yaml
  description :: yaml
  enabled :: yaml

text \<open>\<open>SystemParser.parse\<close>: the system and the lines printed while loading it.\<close>

definition parse ::
  "'c constructors \<Rightarrow> (string \<times> yaml) list \<Rightarrow> py_error + ('c TradingSystem \<times> warning list)" where
  "parse ctor data =
     (case as_dict (dict_get data ''entry'' (YDict [])) of
        Inl e \<Rightarrow> Inl e
      | Inr entry_data \<Rightarrow>
     (case parse_conditions ctor (dict_get entry_data ''conditions'' (YList [])) of
        Inl e \<Rightarrow> Inl e
      | Inr (entry_conds, w1) \<Rightarrow>
     (case as_dict (dict_get data ''exit'' (YDict [])) of
        Inl e \<Rightarrow> Inl e
      | Inr exit_data \<Rightarrow>
     (case StopLossConfig_from_dict
             (dict_get exit_data ''stop_loss''
                (YDict [(''type'', YStr ''atr''), (''multiplier'', YNum 1.5)])) of
        Inl e \<Rightarrow> Inl e
      | Inr sl \<Rightarrow>
     (case TakeProfitConfig_from_dict
             (dict_get exit_data ''take_profit''
                (YDict [(''type'', YStr ''risk_reward''), (''ratio'', YNum 3.0)])) of
        Inl e \<Rightarrow> Inl e
      | Inr tp \<Rightarrow>
     (case parse_conditions ctor (dict_get data ''filters'' (YList [])) of
        Inl e \<Rightarrow> Inl e
      | Inr (filter_conds, w2) \<Rightarrow>
          Inr (\<lparr>sys_name = dict_get data ''name'' (YStr ''Unnamed System''),
                timeframe = dict_get data ''timeframe'' (YStr ''15m''),
                direction = dict_get data ''direction'' (YStr ''both''),
                entry_conditions = entry_conds,
                sys_stop_loss = sl,
                sys_take_profit = tp,
                filters = filter_conds,
                risk_percent = dict_get data ''risk_percent'' (dict_get data ''risk'' (YNum 1.0)),
                max_positions = dict_get data ''max_positions'' (YNum 1),
                description = dict_get data ''description'' (YStr []),
                enabled = dict_get data ''enabled'' (YBool True)\<rparr>,
               w1 @ w2)))))))"

section \<open>Backtest driver (engine/backtest.py)\<close>

datatype SignalType = LONG | SHORT

datatype TradeStatus = OPEN | CLOSED_TP | CLOSED_SL | CLOSED_SIGNAL | CLOSED_EOD

text \<open>
  Modelled from the spec: the module \<open>signal_generator\<close> (the classes \<open>Signal\<close> and
  \<open>SignalGenerator\<close>) is not among the sources. A signal has the five attributes
  that \<open>run\<close> reads, and the generator, with the system under test registered, is a
  parameter \<open>generate_signals\<close> of the driver: a function of the candle prefix, the
  symbol and the account balance, as in the spec's signal generator.
\<close>

record Signal =
  sig_signal_type :: SignalType
  sig_stop_loss :: real
  sig_take_profit :: real
  sig_position_size :: real
  sig_risk_amount :: real

type_synonym signal_generator = "candles \<Rightarrow> string \<Rightarrow> real \<Rightarrow> Signal list"

record BacktestTrade =
  trade_id :: nat
  system_name :: yaml
  signal_type :: SignalType
  entry_time :: int
  entry_price :: real
  entry_bar :: nat
  exit_time :: "int option"
  exit_price :: "real option"
  exit_bar :: "nat option"
  exit_reason :: "TradeStatus option"
  stop_loss :: real
  take_profit :: real
  position_size :: real
  risk_amount :: real
  pnl :: real
  pnl_percent :: real
  r_multiple :: real

record BacktestResults =
  res_system_name :: yaml
  res_symbol :: string
  res_timeframe :: yaml
  start_date :: int
  end_date :: int
  trades :: "BacktestTrade list"
  res_initial_balance :: real
  final_balance :: real
  peak_balance :: real
  max_drawdown :: real
  max_drawdown_percent :: real

record BacktestEngine =
  initial_balance :: real
  commission_pct :: real
  slippage_pct :: real

text \<open>
  \<open>_check_exit\<close>: the exit price and reason, or \<open>(None, None)\<close>.
\<close>

definition check_exit ::
  "BacktestTrade \<Rightarrow> real \<Rightarrow> real \<Rightarrow> real \<Rightarrow> real option \<times> TradeStatus option" where
  "check_exit trade h l cl =
     (if signal_type trade = LONG then
        (if l \<le> stop_loss trade then (Some (stop_loss trade), Some CLOSED_SL)
         else if h \<ge> take_profit trade then (Some (take_profit trade), Some CLOSED_TP)
         else (None, None))
      else
        (if h \<ge> stop_loss trade then (Some (stop_loss trade), Some CLOSED_SL)
         else if l \<le> take_profit trade then (Some (take_profit trade), Some CLOSED_TP)
         else (None, None)))"

text \<open>The local variables of \<open>run\<close> that the bar loop updates.\<close>

record run_state =
  st_trades :: "BacktestTrade list"
  st_balance :: real
  st_peak_balance :: real
  st_max_drawdown :: real
  st_trade_id :: nat
  st_current_trade :: "BacktestTrade option"

text \<open>
  Closing the open trade at an exit of the bar loop. A division by zero, which gives
  \<open>inf\<close> or \<open>nan\<close> on the floats of the source, is 0 here.
\<close>

definition close_trade ::
  "BacktestEngine \<Rightarrow> BacktestTrade \<Rightarrow> int \<Rightarrow> nat \<Rightarrow> real \<Rightarrow> TradeStatus option \<Rightarrow> BacktestTrade" where
  "close_trade eng t bar_timestamp i xp reason =
     (let raw = (if signal_type t = LONG then (xp - entry_price t) * position_size t
                 else (entry_price t - xp) * position_size t);
          commission = \<bar>raw\<bar> * (commission_pct eng / 100);
          p = raw - commission
      in t\<lparr>exit_time := Some bar_timestamp, exit_price := Some xp, exit_bar := Some i,
            exit_reason := reason, pnl := p,
            r_multiple := (if risk_amount t > 0 then p / (risk_amount t * position_size t)
                           else r_multiple t),
            pnl_percent := (p / initial_balance eng) * 100\<rparr>)"

definition exit_step ::
  "BacktestEngine \<Rightarrow> int \<Rightarrow> nat \<Rightarrow> bar \<Rightarrow> run_state \<Rightarrow> run_state" where
  "exit_step eng bar_timestamp i current_bar st =
     (case st_current_trade st of
        None \<Rightarrow> st
      | Some t \<Rightarrow>
          (case check_exit t (high current_bar) (low current_bar) (close current_bar) of
             (None, reason) \<Rightarrow> st
           | (Some xp, reason) \<Rightarrow>
               let t' = close_trade eng t bar_timestamp i xp reason;
                   balance = st_balance st + pnl t';
                   peak = (if balance > st_peak_balance st then balance else st_peak_balance st);
                   drawdown = peak - balance
               in st\<lparr>st_trades := st_trades st @ [t'], st_balance := balance,
                     st_current_trade := None, st_peak_balance := peak,
                     st_max_drawdown := (if drawdown > st_max_drawdown st then drawdown
                                         else st_max_drawdown st)\<rparr>))"

definition open_trade ::
  "BacktestEngine \<Rightarrow> yaml \<Rightarrow> int \<Rightarrow> nat \<Rightarrow> real \<Rightarrow> nat \<Rightarrow> Signal \<Rightarrow> BacktestTrade" where
  "open_trade eng nm bar_timestamp i cl tid sg =
     (let slippage = cl * (slippage_pct eng / 100) in
      \<lparr>trade_id = tid, system_name = nm, signal_type = sig_signal_type sg,
       entry_time = bar_timestamp,
       entry_price = (if sig_signal_type sg = LONG then cl + slippage else cl - slippage),
       entry_bar = i, exit_time = None, exit_price = None, exit_bar = None,
       exit_reason = None, stop_loss = sig_stop_loss sg, take_profit = sig_take_profit sg,
       position_size = sig_position_size sg, risk_amount = sig_risk_amount sg,
       pnl = 0, pnl_percent = 0, r_multiple = 0\<rparr>)"

definition entry_step ::
  "BacktestEngine \<Rightarrow> signal_generator \<Rightarrow> yaml \<Rightarrow> candles \<Rightarrow> string \<Rightarrow> int \<Rightarrow> nat
     \<Rightarrow> run_state \<Rightarrow> run_state" where
  "entry_step eng generate_signals nm c symbol bar_timestamp i st =
     (case st_current_trade st of
        Some t \<Rightarrow> st
      | None \<Rightarrow>
          (case generate_signals (c\<lparr>bars := take (i + 1) (bars c)\<rparr>) symbol (st_balance st) of
             [] \<Rightarrow> st
           | sg # rest \<Rightarrow>
               st\<lparr>st_trade_id := st_trade_id st + 1,
                  st_current_trade :=
                    Some (open_trade eng nm bar_timestamp i (close (bars c ! i))
                            (st_trade_id st + 1) sg)\<rparr>))"

text \<open>
  The clock: \<open>clk k\<close> is what the \<open>k\<close>-th call of \<open>datetime.now()\<close> of a run
  returns. \<open>run\<close> calls it twice before the loop (for \<open>start_date\<close> and
  \<open>end_date\<close>) and once in every iteration, so the call at bar \<open>i\<close> is call
  \<open>2 + (i - min_bars)\<close>.
\<close>

definition min_bars :: nat where
  "min_bars = 50"

definition bar_time :: "candles \<Rightarrow> (nat \<Rightarrow> int) \<Rightarrow> nat \<Rightarrow> int" where
  "bar_time c clk i =
     (if has_timestamp c then timestamp (bars c ! i) else clk (2 + (i - min_bars)))"

definition bar_step ::
  "BacktestEngine \<Rightarrow> signal_generator \<Rightarrow> yaml \<Rightarrow> candles \<Rightarrow> string \<Rightarrow> (nat \<Rightarrow> int)
     \<Rightarrow> run_state \<Rightarrow> nat \<Rightarrow> run_state" where
  "bar_step eng generate_signals nm c symbol clk st i =
     entry_step eng generate_signals nm c symbol (bar_time c clk i) i
       (exit_step eng (bar_time c clk i) i (bars c ! i) st)"

definition run_init :: "BacktestEngine \<Rightarrow> run_state" where
  "run_init eng =
     \<lparr>st_trades = [], st_balance = initial_balance eng,
      st_peak_balance = initial_balance eng, st_max_drawdown = 0, st_trade_id = 0,
      st_current_trade = None\<rparr>"

definition run_loop ::
  "BacktestEngine \<Rightarrow> signal_generator \<Rightarrow> yaml \<Rightarrow> candles \<Rightarrow> string \<Rightarrow> (nat \<Rightarrow> int)
     \<Rightarrow> run_state" where
  "run_loop eng generate_signals nm c symbol clk =
     foldl (bar_step eng generate_signals nm c symbol clk) (run_init eng)
       [min_bars ..< length (bars c)]"

text \<open>Closing the trade that is still open at the end of the data.\<close>

definition close_eod :: "candles \<Rightarrow> int \<Rightarrow> BacktestTrade \<Rightarrow> BacktestTrade" where
  "close_eod c end_dt t =
     (let xp = close (last (bars c));
          p = (if signal_type t = LONG then (xp - entry_price t) * position_size t
               else (entry_price t - xp) * position_size t)
      in t\<lparr>exit_time := Some end_dt, exit_price := Some xp,
            exit_bar := Some (length (bars c) - 1), exit_reason := Some CLOSED_EOD,
            pnl := p,
            r_multiple := (if risk_amount t > 0 then p / (risk_amount t * position_size t)
                           else r_multiple t)\<rparr>)"

definition finish ::
  "BacktestEngine \<Rightarrow> 'c TradingSystem \<Rightarrow> candles \<Rightarrow> string \<Rightarrow> int \<Rightarrow> int \<Rightarrow> run_state
     \<Rightarrow> BacktestResults" where
  "finish eng system c symbol start_dt end_dt st =
     (let closed = (case st_current_trade st of
                      None \<Rightarrow> None
                    | Some t \<Rightarrow> Some (close_eod c end_dt t));
          balance = (case closed of None \<Rightarrow> st_balance st | Some t \<Rightarrow> st_balance st + pnl t);
          ledger = (case closed of None \<Rightarrow> st_trades st | Some t \<Rightarrow> st_trades st @ [t])
      in \<lparr>res_system_name = sys_name system, res_symbol = symbol,
          res_timeframe = timeframe system, start_date = start_dt, end_date = end_dt,
          trades = ledger, res_initial_balance = initial_balance eng,
          final_balance = balance, peak_balance = st_peak_balance st,
          max_drawdown = st_max_drawdown st,
          max_drawdown_percent =
            (if st_peak_balance st > 0 then st_max_drawdown st / st_peak_balance st * 100
             else 0)\<rparr>)"

text \<open>
  \<open>BacktestEngine.run\<close>. \<open>candles['timestamp'].iloc[0]\<close> raises \<open>IndexError\<close> on a
  table with no row.
\<close>

definition run ::
  "BacktestEngine \<Rightarrow> signal_generator \<Rightarrow> 'c TradingSystem \<Rightarrow> candles \<Rightarrow> string
     \<Rightarrow> (nat \<Rightarrow> int) \<Rightarrow> py_error + BacktestResults" where
  "run eng generate_signals system c symbol clk =
     (if has_timestamp c \<and> bars c = [] then Inl IndexError
      else
        let start_dt = (if has_timestamp c then timestamp (hd (bars c)) else clk 0);
            end_dt = (if has_timestamp c then timestamp (last (bars c)) else clk 1)
        in Inr (finish eng system c symbol start_dt end_dt
                  (run_loop eng generate_signals (sys_name system) c symbol clk)))"

section \<open>Fibonacci levels of a range (patterns/range\_detector.py)\<close>

subsection \<open>Python floats\<close>

text \<open>
  The levels are computed in floating point, and there the rounding matters. A Python
  float is an IEEE 754 double: a finite value, an infinity or a NaN (the two zeros are
  one value here; they compare equal). A finite double is a real number \<open>m * 2^q\<close>
  with an integer \<open>m\<close> of at most 53 bits and \<open>q \<ge> -1074\<close>, of magnitude below
  \<open>2^1024\<close>.
\<close>

datatype pyfloat = Finite real | PosInf | NegInf | NaN

text \<open>
  Rounding to the nearest integer, ties to the even one, of a real that is not
  negative.
\<close>

definition round_even :: "real \<Rightarrow> int" where
  "round_even y =
     (if y - of_int \<lfloor>y\<rfloor> < 1 / 2 then \<lfloor>y\<rfloor>
      else if y - of_int \<lfloor>y\<rfloor> > 1 / 2 then \<lfloor>y\<rfloor> + 1
      else if even \<lfloor>y\<rfloor> then \<lfloor>y\<rfloor> else \<lfloor>y\<rfloor> + 1)"

text \<open>
  The exponent of the last place of a double of the magnitude of \<open>x\<close>: 52 below the
  exponent of \<open>x\<close>, and never below that of the subnormal numbers.
\<close>

definition quantum :: "real \<Rightarrow> int" where
  "quantum x = max (\<lfloor>log 2 \<bar>x\<bar>\<rfloor> - 52) (- 1074)"

text \<open>
  \<open>rne x\<close> is the multiple of \<open>2^quantum x\<close> nearest to \<open>x\<close>, the one with the even
  multiplier at a tie (round to nearest, ties to even, on sign and magnitude).
\<close>

definition rne :: "real \<Rightarrow> real" where
  "rne x = sgn x * (of_int (round_even (\<bar>x\<bar> / 2 powi quantum x)) * 2 powi quantum x)"










subsection \<open>FibLevels\<close>

record FibLevels =
  range_low :: pyfloat
  range_high :: pyfloat

definition fib_0 :: "FibLevels \<Rightarrow> pyfloat" where
  "fib_0 f = range_low f"




definition fib_100 :: "FibLevels \<Rightarrow> pyfloat" where
  "fib_100 f = range_high f"


section \<open>Example inputs\<close>

text \<open>
  A table of 52 bars, with a \<open>timestamp\<close> column and with a \<open>datetime\<close> column
  instead, a generator that signals a long entry at every bar, and an engine that
  charges one percent of commission.
\<close>

definition flat_bar :: bar where
  "flat_bar = \<lparr>timestamp = 1000, datetime = 1000, open_price = 100, high = 101, low = 99,
               close = 100, volume = 1\<rparr>"

definition final_bar :: bar where
  "final_bar = \<lparr>timestamp = 2000, datetime = 2000, open_price = 100, high = 106, low = 99,
                close = 105, volume = 1\<rparr>"

definition stamped_table :: candles where
  "stamped_table = \<lparr>has_timestamp = True, has_datetime = False,
                     bars = replicate 51 flat_bar @ [final_bar]\<rparr>"

definition datetime_table :: candles where
  "datetime_table = \<lparr>has_timestamp = False, has_datetime = True,
                      bars = replicate 51 flat_bar @ [final_bar]\<rparr>"

definition long_signal :: Signal where
  "long_signal = \<lparr>sig_signal_type = LONG, sig_stop_loss = 90, sig_take_profit = 110,
                  sig_position_size = 1, sig_risk_amount = 10\<rparr>"

definition always_long :: signal_generator where
  "always_long bar_data symbol balance = [long_signal]"

definition example_engine :: BacktestEngine where
  "example_engine = \<lparr>initial_balance = 10000, commission_pct = 1, slippage_pct = 0\<rparr>"

definition example_system :: "unit TradingSystem" where
  "example_system =
     \<lparr>sys_name = YStr ''S'', timeframe = YStr ''15m'', direction = YStr ''long'',
      entry_conditions = [],
      sys_stop_loss = \<lparr>sl_type = SL_ATR, sl_value = YNum 1.5, trailing = YBool False,
                        trailing_activation = YNull\<rparr>,
      sys_take_profit = \<lparr>tp_type = TP_RISK_REWARD, tp_value = YNum 3, partial_exits = YNull\<rparr>,
      filters = [], risk_percent = YNum 1, max_positions = YNum 1, description = YStr [],
      enabled = YBool True\<rparr>"








text \<open>
  What holds of the state of the bar loop at every bar: no trade of the ledger was
  closed for the end of the data, and the open trade has its initial \<open>pnl_percent\<close>.
\<close>

definition loop_inv :: "run_state \<Rightarrow> bool" where
  "loop_inv st =
     ((\<forall>t \<in> set (st_trades st). exit_reason t \<noteq> Some CLOSED_EOD) \<and>
      (\<forall>t. st_current_trade st = Some t \<longrightarrow> pnl_percent t = 0))"

text \<open>
  Thirteen bars (high, low, close): a high of 12 at bar 1, a fall below the first low
  at bar 2, a low of 5 at bar 11 and a close above 12 at bar 12, which confirm a swing
  high at bar 1 and a swing low at bar 11.
\<close>

definition ohlc :: "real \<Rightarrow> real \<Rightarrow> real \<Rightarrow> bar" where
  "ohlc h l cl = \<lparr>timestamp = 0, datetime = 0, open_price = cl, high = h, low = l,
                  close = cl, volume = 1\<rparr>"

definition two_swing_table :: candles where
  "two_swing_table =
     \<lparr>has_timestamp = False, has_datetime = False,
      bars = [ohlc 10 8 9, ohlc 12 9 9.5, ohlc 9 6 7] @ replicate 8 (ohlc 8 6 7) @
             [ohlc 8 5 7, ohlc 12.01 7 12.01]\<rparr>"

text \<open>A strategy document whose only entry condition has a type that is not registered.\<close>

definition no_constructor :: "unit constructors" where
  "no_constructor t kwargs = RaisesTypeError"

definition moon_document :: "(string \<times> yaml) list" where
  "moon_document =
     [(''name'', YStr ''Moon''),
      (''entry'', YDict [(''conditions'', YList [YDict [(''type'', YStr ''moon_phase'')]])])]"

text \<open>
  What holds of the state of the swing detector before bar \<open>n\<close>: the four cursors
  point before \<open>n\<close>, every swing emitted lies before the two running extremes, and
  the swings are in strictly ascending order of their index.
\<close>

definition swing_inv :: "nat \<Rightarrow> swing_state \<Rightarrow> bool" where
  "swing_inv n st =
     (fst (current_swing_high st) < n \<and> fst (current_swing_low st) < n \<and>
      fst (highest_since_low st) < n \<and> fst (lowest_since_high st) < n \<and>
      (\<forall>s \<in> set (swings st).
         index s < fst (highest_since_low st) \<and> index s < fst (lowest_since_high st)) \<and>
      sorted_wrt (<) (map index (swings st)))"

text \<open>The default range detector, asking for two touches only.\<close>

definition two_touch_detector :: RangeDetector where
  "two_touch_detector = RANGE_DETECTOR_DEFAULT\<lparr>min_touches := 2\<rparr>"

text \<open>The two swings of the table above, and the range between them.\<close>

definition high_at_1 :: SwingPoint where
  "high_at_1 = \<lparr>index = 1, price = 12, swing_type = SWING_HIGH, confirmed_at_index = 2,
                sp_timestamp = None, confirmed_at_timestamp = None, struct = None\<rparr>"

definition low_at_11 :: SwingPoint where
  "low_at_11 = \<lparr>index = 11, price = 5, swing_type = SWING_LOW, confirmed_at_index = 12,
                sp_timestamp = None, confirmed_at_timestamp = None, struct = None\<rparr>"

definition range_1_11 :: "RangeStatus \<Rightarrow> Range" where
  "range_1_11 s =
     \<lparr>r_high = 12, r_low = 5, start_index = 1, end_index = Some 12, high_touches = 1,
      low_touches = 1, r_status = s, high_swing = Some high_at_1,
      low_swing = Some low_at_11\<rparr>"

text \<open>
  Ten bars (high, low, close): a swing high of 12 at bar 1, a lower high at bar 2, three
  swing lows at bars 4, 5 and 7, the last two of them higher lows, a close above 12 at
  bar 8 and a close below the low of bar 7 at bar 9.
\<close>

definition trend_table :: candles where
  "trend_table =
     \<lparr>has_timestamp = False, has_datetime = False,
      bars = [ohlc 10 9 9.5, ohlc 12 9.5 10, ohlc 11 8 8.5, ohlc 10 7.5 9.5, ohlc 9.8 6 7,
              ohlc 11.5 6.5 11.2, ohlc 11.4 9 10, ohlc 11.9 9.5 11.8, ohlc 13 11 12.5,
              ohlc 12.6 9 9.2]\<rparr>"















section \<open>The combinators of the condition algebra\<close>

text \<open>
  Claim C7. For all three-valued results of the operands: \<open>AndCondition.evaluate\<close>
  returns True exactly when both operands are True, False exactly when one of them is
  False, and Neutral in every other case; \<open>OrCondition.evaluate\<close> returns True exactly
  when one operand is True, False exactly when both are False, and Neutral in every
  other case; \<open>NotCondition.evaluate\<close> swaps True and False and keeps Neutral.
\<close>

theorem combinators_three_valued:
  "(result (evaluate (AndCondition a b) env) = TRUE) =
     (result (evaluate a env) = TRUE \<and> result (evaluate b env) = TRUE)
   \<and> (result (evaluate (AndCondition a b) env) = FALSE) =
     (result (evaluate a env) = FALSE \<or> result (evaluate b env) = FALSE)
   \<and> (result (evaluate (AndCondition a b) env) = NEUTRAL) =
     (\<not> (result (evaluate a env) = TRUE \<and> result (evaluate b env) = TRUE) \<and>
      \<not> (result (evaluate a env) = FALSE \<or> result (evaluate b env) = FALSE))
   \<and> (result (evaluate (OrCondition a b) env) = TRUE) =
     (result (evaluate a env) = TRUE \<or> result (evaluate b env) = TRUE)
   \<and> (result (evaluate (OrCondition a b) env) = FALSE) =
     (result (evaluate a env) = FALSE \<and> result (evaluate b env) = FALSE)
   \<and> (result (evaluate (OrCondition a b) env) = NEUTRAL) =
     (\<not> (result (evaluate a env) = TRUE \<or> result (evaluate b env) = TRUE) \<and>
      \<not> (result (evaluate a env) = FALSE \<and> result (evaluate b env) = FALSE))
   \<and> result (evaluate (NotCondition a) env) =
     (case result (evaluate a env) of TRUE \<Rightarrow> FALSE | FALSE \<Rightarrow> TRUE | NEUTRAL \<Rightarrow> NEUTRAL)"
  by (cases "result (evaluate a env)"; cases "result (evaluate b env)")
     (simp_all add: Let_def is_true_def is_false_def)

section \<open>The Fibonacci levels of a range\<close>

subsection \<open>Rounding to a grid\<close>











subsection \<open>The quantum of a real\<close>







subsection \<open>Rounding to the nearest double\<close>


lemma rne_zero [simp]: "rne 0 = 0"
  by (simp add: rne_def)












subsection \<open>The levels of a range of doubles\<close>








subsection \<open>Rounding a given number\<close>






































subsection \<open>The order of the levels\<close>




section \<open>The backtest driver\<close>

subsection \<open>Exits inside the bar loop\<close>









subsection \<open>The trade closed at the end of the data\<close>

lemma check_exit_reason:
  "check_exit t h l cl = (Some xp, r) \<Longrightarrow> r = Some CLOSED_SL \<or> r = Some CLOSED_TP"
  by (auto simp: check_exit_def split: if_splits)

lemma exit_step_inv: "loop_inv st \<Longrightarrow> loop_inv (exit_step eng ts i b st)"
  by (auto simp: loop_inv_def exit_step_def close_trade_def Let_def
           split: option.splits prod.splits dest: check_exit_reason)

lemma entry_step_inv: "loop_inv st \<Longrightarrow> loop_inv (entry_step eng g nm c symbol ts i st)"
  by (auto simp: loop_inv_def entry_step_def open_trade_def Let_def
           split: option.splits list.splits)

lemma bar_step_inv: "loop_inv st \<Longrightarrow> loop_inv (bar_step eng g nm c symbol clk st i)"
  by (simp add: bar_step_def exit_step_inv entry_step_inv)

lemma foldl_bar_step_inv:
  "loop_inv st \<Longrightarrow> loop_inv (foldl (bar_step eng g nm c symbol clk) st is)"
  by (induction "is" arbitrary: st) (simp_all add: bar_step_inv)

lemma run_loop_inv: "loop_inv (run_loop eng g nm c symbol clk)"
  unfolding run_loop_def by (rule foldl_bar_step_inv) (simp add: loop_inv_def run_init_def)

text \<open>
  The exit of the bar loop, for comparison: the commission is taken from the profit,
  \<open>pnl_percent\<close> is set, and the peak balance and the drawdown follow the new balance.
\<close>

lemma exit_step_accounts:
  assumes "st_current_trade st = Some t"
    and "check_exit t (high b) (low b) (close b) = (Some xp, reason)"
  shows "pnl (last (st_trades (exit_step eng ts i b st))) =
           (if signal_type t = LONG then (xp - entry_price t) * position_size t
            else (entry_price t - xp) * position_size t)
           - \<bar>if signal_type t = LONG then (xp - entry_price t) * position_size t
              else (entry_price t - xp) * position_size t\<bar> * (commission_pct eng / 100)"
    and "pnl_percent (last (st_trades (exit_step eng ts i b st))) =
           pnl (last (st_trades (exit_step eng ts i b st))) / initial_balance eng * 100"
    and "st_balance (exit_step eng ts i b st) =
           st_balance st + pnl (last (st_trades (exit_step eng ts i b st)))"
    and "st_peak_balance (exit_step eng ts i b st) =
           max (st_peak_balance st) (st_balance (exit_step eng ts i b st))"
    and "st_max_drawdown (exit_step eng ts i b st) =
           max (st_max_drawdown st)
             (st_peak_balance (exit_step eng ts i b st) - st_balance (exit_step eng ts i b st))"
  using assms by (simp_all add: exit_step_def close_trade_def Let_def max_def)

text \<open>
  Claim C10. For every run whose last trade is closed for the end of the data (exit
  reason EOD): the trade's pnl is the price difference times the position size, with no
  commission taken from it, and it is added to the balance; the trade's
  \<open>pnl_percent\<close> stays 0; and the peak balance and the maximal drawdown of the
  results are those the bar loop ended with, not updated for this last exit.
\<close>

theorem eod_close_frame:
  assumes "run eng g system c symbol clk = Inr res"
    and "trades res \<noteq> []"
    and "exit_reason (last (trades res)) = Some CLOSED_EOD"
  shows "pnl (last (trades res)) =
           (if signal_type (last (trades res)) = LONG
            then (close (last (bars c)) - entry_price (last (trades res))) *
                   position_size (last (trades res))
            else (entry_price (last (trades res)) - close (last (bars c))) *
                   position_size (last (trades res)))
       \<and> exit_price (last (trades res)) = Some (close (last (bars c)))
       \<and> pnl_percent (last (trades res)) = 0
       \<and> butlast (trades res) = st_trades (run_loop eng g (sys_name system) c symbol clk)
       \<and> final_balance res =
           st_balance (run_loop eng g (sys_name system) c symbol clk) + pnl (last (trades res))
       \<and> peak_balance res = st_peak_balance (run_loop eng g (sys_name system) c symbol clk)
       \<and> max_drawdown res = st_max_drawdown (run_loop eng g (sys_name system) c symbol clk)"
proof -
  let ?st = "run_loop eng g (sys_name system) c symbol clk"
  have inv: "loop_inv ?st" by (rule run_loop_inv)
  obtain sd ed where res: "res = finish eng system c symbol sd ed ?st"
    using assms(1) by (auto simp: run_def Let_def split: if_splits)
  show ?thesis
  proof (cases "st_current_trade ?st")
    case None
    then have "trades res = st_trades ?st" by (simp add: res finish_def)
    with assms(2,3) inv show ?thesis
      by (auto simp: loop_inv_def dest: last_in_set)
  next
    case (Some t)
    with inv have "pnl_percent t = 0" by (simp add: loop_inv_def)
    with Some show ?thesis
      by (simp add: res finish_def close_eod_def Let_def)
  qed
qed

lemmas example_defs = stamped_table_def datetime_table_def flat_bar_def final_bar_def
  long_signal_def always_long_def example_engine_def example_system_def

lemmas run_defs = run_def run_loop_def min_bars_def bar_step_def exit_step_def entry_step_def
  run_init_def open_trade_def check_exit_def bar_time_def finish_def close_eod_def
  close_trade_def

lemma run_stamped_table:
  "run example_engine always_long example_system stamped_table ''BTC'' clk =
   Inr \<lparr>res_system_name = YStr ''S'', res_symbol = ''BTC'',
        res_timeframe = YStr ''15m'', start_date = 1000, end_date = 2000,
        trades =
          [\<lparr>trade_id = 1, system_name = YStr ''S'', signal_type = LONG,
            entry_time = 1000, entry_price = 100, entry_bar = 50,
            exit_time = Some 2000, exit_price = Some 105,
            exit_bar = Some 51, exit_reason = Some CLOSED_EOD,
            stop_loss = 90, take_profit = 110, position_size = 1,
            risk_amount = 10, pnl = 5, pnl_percent = 0,
            r_multiple = 1 / 2\<rparr>],
        res_initial_balance = 10000, final_balance = 10005,
        peak_balance = 10000, max_drawdown = 0, max_drawdown_percent = 0\<rparr>"
  by (simp add: run_defs example_defs nth_append Let_def)

lemma run_loop_stamped_table:
  "run_loop example_engine always_long (YStr ''S'') stamped_table ''BTC'' clk =
   \<lparr>st_trades = [], st_balance = 10000, st_peak_balance = 10000, st_max_drawdown = 0,
    st_trade_id = 1,
    st_current_trade =
      Some \<lparr>trade_id = 1, system_name = YStr ''S'', signal_type = LONG,
            entry_time = 1000, entry_price = 100, entry_bar = 50,
            exit_time = None, exit_price = None, exit_bar = None, exit_reason = None,
            stop_loss = 90, take_profit = 110, position_size = 1,
            risk_amount = 10, pnl = 0, pnl_percent = 0, r_multiple = 0\<rparr>\<rparr>"
  by (simp add: run_defs example_defs nth_append Let_def)

text \<open>
  A run of an engine with one percent of commission, whose trade, entered at 100, is
  closed at the last close, 105: the profit is 5 and the balance 10005.
\<close>

theorem eod_close_frame_witness:
  "\<exists>res. run example_engine always_long example_system stamped_table ''BTC'' (\<lambda>k. 0) = Inr res
     \<and> trades res \<noteq> []
     \<and> exit_reason (last (trades res)) = Some CLOSED_EOD
     \<and> signal_type (last (trades res)) = LONG
     \<and> pnl (last (trades res)) = 5
     \<and> pnl_percent (last (trades res)) = 0
     \<and> final_balance res = 10005
     \<and> peak_balance res = 10000
     \<and> max_drawdown res = 0"
proof -
  let ?r = "run example_engine always_long example_system stamped_table ''BTC'' (\<lambda>k. 0)"
  obtain res where r: "?r = Inr res"
    and t: "trades res \<noteq> []" "exit_reason (last (trades res)) = Some CLOSED_EOD"
    and e: "signal_type (last (trades res)) = LONG" "entry_price (last (trades res)) = 100"
      "position_size (last (trades res)) = 1"
    by (simp add: run_stamped_table)
  have n: "sys_name example_system = YStr ''S''"
    by (simp add: example_system_def)
  have c: "close (last (bars stamped_table)) = 105"
    by (simp add: stamped_table_def final_bar_def)
  show ?thesis
    using eod_close_frame [OF r t] r t e
    by (simp add: n c run_loop_stamped_table)
qed

subsection \<open>The clock in the trade ledger\<close>

text \<open>
  Claim C1. For every candle table, strategy and parameter setting, two invocations of
  \<open>BacktestEngine.run\<close> on the same inputs produce the same trade ledger (every field
  of every trade, \<open>entry_time\<close> and \<open>exit_time\<close> included) and the same final balance.

  On a table without a \<open>timestamp\<close> column (here one whose time column is named
  \<open>datetime\<close>) the times of the ledger are readings of the clock, and two runs on the
  same inputs that read different times give different ledgers.
\<close>

theorem run_depends_on_clock:
  "run example_engine always_long example_system datetime_table ''BTC'' (\<lambda>k. 5000 + int k) \<noteq>
   run example_engine always_long example_system datetime_table ''BTC'' (\<lambda>k. 9000 + int k)
   \<and> map_sum id (map entry_time \<circ> trades)
       (run example_engine always_long example_system datetime_table ''BTC''
          (\<lambda>k. 5000 + int k)) = Inr [5002]
   \<and> map_sum id (map entry_time \<circ> trades)
       (run example_engine always_long example_system datetime_table ''BTC''
          (\<lambda>k. 9000 + int k)) = Inr [9002]"
  by (simp add: run_defs example_defs nth_append Let_def)

text \<open>With a \<open>timestamp\<close> column the run does not read the clock.\<close>

lemma bar_time_stamped: "has_timestamp c \<Longrightarrow> bar_time c clk = bar_time c clk'"
  by (rule ext) (simp add: bar_time_def)

lemma run_ignores_clock_when_stamped:
  assumes "has_timestamp c"
  shows "run eng g system c symbol clk = run eng g system c symbol clk'"
proof -
  have "bar_step eng g (sys_name system) c symbol clk = bar_step eng g (sys_name system) c symbol clk'"
    using bar_time_stamped [OF assms, of clk clk'] by (intro ext) (simp add: bar_step_def)
  then show ?thesis
    using assms by (simp add: run_def run_loop_def)
qed

section \<open>The regime of the structure analyzer\<close>

lemma detect_swings_two_swing_table:
  "detect_swings True two_swing_table =
     [\<lparr>index = 1, price = 12, swing_type = SWING_HIGH, confirmed_at_index = 2,
       sp_timestamp = None, confirmed_at_timestamp = None, struct = None\<rparr>,
      \<lparr>index = 11, price = 5, swing_type = SWING_LOW, confirmed_at_index = 12,
       sp_timestamp = None, confirmed_at_timestamp = None, struct = None\<rparr>]"
  by code_simp

lemma count_structure_pos:
  "(Suc 0 \<le> count_structure k sw) = (\<exists>s \<in> set sw. struct s = Some k)"
proof -
  have "(filter (\<lambda>s. struct s = Some k) sw \<noteq> []) = (\<exists>s \<in> set sw. struct s = Some k)"
    by (simp add: filter_empty_conv)
  then show ?thesis
    by (simp add: count_structure_def Suc_le_eq)
qed

lemma recent_swings_drop: "recent_swings sw = drop (length sw - 6) sw"
  by (simp add: recent_swings_def)

text \<open>
  Claim C3, as the claim states it: the regime is ranging whenever the last swings do
  not hold an HH with an HL, or an LH with an LL, also when fewer than four swings
  exist. On a table with two swings, neither of them classified, the regime is
  \<open>unknown\<close>.
\<close>

theorem analyze_unknown_counterexample:
  "map struct (detect_swings True two_swing_table) = [None, None] \<and>
   trend (analyze True two_swing_table) = ''unknown'' \<and>
   trend (analyze True two_swing_table) \<noteq> ''ranging''"
  by (simp add: analyze_def detect_swings_two_swing_table)

text \<open>
  Claim C3, amended. With fewer than four swings the regime is \<open>unknown\<close>. With four
  swings or more it is read from the last six of them (all of them when there are
  fewer): \<open>uptrend\<close> when an HH and an HL are among them, otherwise \<open>downtrend\<close> when an
  LH and an LL are among them, and \<open>ranging\<close> in every other case.
\<close>

theorem analyze_trend:
  "trend (analyze uc c) =
     (if length (detect_swings uc c) < 4 then ''unknown''
      else if (\<exists>s \<in> set (recent_swings (detect_swings uc c)).
                 struct s = Some HIGHER_HIGH) \<and>
              (\<exists>s \<in> set (recent_swings (detect_swings uc c)).
                 struct s = Some HIGHER_LOW) then ''uptrend''
      else if (\<exists>s \<in> set (recent_swings (detect_swings uc c)).
                 struct s = Some LOWER_HIGH) \<and>
              (\<exists>s \<in> set (recent_swings (detect_swings uc c)).
                 struct s = Some LOWER_LOW) then ''downtrend''
      else ''ranging'')
   \<and> recent_swings (detect_swings uc c) =
       drop (length (detect_swings uc c) - 6) (detect_swings uc c)"
  by (simp add: analyze_def Let_def count_structure_pos recent_swings_drop)

text \<open>
  On the table of ten bars the last six swings hold a higher high and two higher lows,
  beside a lower high: the regime is an uptrend.
\<close>

lemma analyze_trend_table:
  "map struct (detect_swings True trend_table) =
     [None, Some LOWER_HIGH, None, Some HIGHER_LOW, Some HIGHER_LOW, Some HIGHER_HIGH] \<and>
   trend (analyze True trend_table) = ''uptrend''"
  by code_simp

section \<open>The strategy loader\<close>

lemma parse_moon_document:
  "parse no_constructor moon_document =
     Inr (\<lparr>sys_name = YStr ''Moon'', timeframe = YStr ''15m'',
           direction = YStr ''both'', entry_conditions = [],
           sys_stop_loss =
             \<lparr>sl_type = SL_ATR, sl_value = YNum 1.5,
              trailing = YBool False, trailing_activation = YNull\<rparr>,
           sys_take_profit =
             \<lparr>tp_type = TP_RISK_REWARD, tp_value = YNum 3,
              partial_exits = YNull\<rparr>,
           filters = [], risk_percent = YNum 1, max_positions = YNum 1,
           description = YStr [], enabled = YBool True\<rparr>,
          [UnknownConditionType (YStr ''moon_phase'')])"
  by (simp add: parse_def moon_document_def dict_get_def as_dict_def parse_conditions_def
        iterate_def parse_condition_def falsy_def CONDITION_TYPES_def
        StopLossConfig_from_dict_def TakeProfitConfig_from_dict_def StopLossType_of_def
        TakeProfitType_of_def)

lemma parse_condition_unknown:
  assumes "map_of kvs ''type'' = Some (YStr t)" and "t \<noteq> []" and "t \<notin> set CONDITION_TYPES"
  shows "parse_condition ctor (YDict kvs) = Inr (None, [UnknownConditionType (YStr t)])"
  using assms by (simp add: parse_condition_def as_dict_def dict_get_def falsy_def)

lemma parse_entries_append:
  "parse_entries ctor (xs @ ys) =
     (case parse_entries ctor xs of
        Inl e \<Rightarrow> Inl e
      | Inr (c1, w1) \<Rightarrow>
          (case parse_entries ctor ys of
             Inl e \<Rightarrow> Inl e
           | Inr (c2, w2) \<Rightarrow> Inr (c1 @ c2, w1 @ w2)))"
  by (induction xs) (auto split: sum.splits prod.splits option.splits)

lemma parse_enabled:
  "parse ctor data = Inr (sys, w) \<Longrightarrow> enabled sys = dict_get data ''enabled'' (YBool True)"
  by (auto simp: parse_def split: sum.splits prod.splits)

text \<open>
  Claim C9, as the claim states it: a strategy left with no entry condition is disabled.
  The document whose only entry condition is of an unknown type loads with a warning,
  with no entry condition, and enabled.
\<close>

theorem parse_moon_document_counterexample:
  "parse no_constructor moon_document =
     Inr (\<lparr>sys_name = YStr ''Moon'', timeframe = YStr ''15m'',
           direction = YStr ''both'', entry_conditions = [],
           sys_stop_loss =
             \<lparr>sl_type = SL_ATR, sl_value = YNum 1.5,
              trailing = YBool False, trailing_activation = YNull\<rparr>,
           sys_take_profit =
             \<lparr>tp_type = TP_RISK_REWARD, tp_value = YNum 3,
              partial_exits = YNull\<rparr>,
           filters = [], risk_percent = YNum 1, max_positions = YNum 1,
           description = YStr [], enabled = YBool True\<rparr>,
          [UnknownConditionType (YStr ''moon_phase'')])
   \<and> YBool True \<noteq> YBool False"
  by (simp add: parse_moon_document)

text \<open>
  Claim C9, amended. A condition entry whose type is a non-empty string that is not in
  the registry yields no condition and one warning, and the entries around it are
  parsed as they are without it: it does not fail the load. A strategy that loads has
  the \<open>enabled\<close> value of its document, True when the document has none, whatever
  entry conditions remain.
\<close>

theorem unknown_type_skipped:
  "(map_of kvs ''type'' = Some (YStr t) \<and> t \<noteq> [] \<and> t \<notin> set CONDITION_TYPES \<longrightarrow>
      parse_condition ctor (YDict kvs) = Inr (None, [UnknownConditionType (YStr t)]) \<and>
      parse_entries ctor (xs @ YDict kvs # ys) =
        (case parse_entries ctor xs of
           Inl e \<Rightarrow> Inl e
         | Inr (c1, w1) \<Rightarrow>
             (case parse_entries ctor ys of
                Inl e \<Rightarrow> Inl e
              | Inr (c2, w2) \<Rightarrow> Inr (c1 @ c2, w1 @ [UnknownConditionType (YStr t)] @ w2))))
   \<and> (parse ctor data = Inr (sys, w) \<longrightarrow>
        enabled sys = dict_get data ''enabled'' (YBool True))"
proof (intro conjI impI)
  assume a: "map_of kvs ''type'' = Some (YStr t) \<and> t \<noteq> [] \<and> t \<notin> set CONDITION_TYPES"
  then show u: "parse_condition ctor (YDict kvs) = Inr (None, [UnknownConditionType (YStr t)])"
    by (simp add: parse_condition_unknown)
  show "parse_entries ctor (xs @ YDict kvs # ys) =
        (case parse_entries ctor xs of
           Inl e \<Rightarrow> Inl e
         | Inr (c1, w1) \<Rightarrow>
             (case parse_entries ctor ys of
                Inl e \<Rightarrow> Inl e
              | Inr (c2, w2) \<Rightarrow> Inr (c1 @ c2, w1 @ [UnknownConditionType (YStr t)] @ w2)))"
    by (simp add: parse_entries_append u split: sum.splits prod.splits)
next
  assume "parse ctor data = Inr (sys, w)"
  then show "enabled sys = dict_get data ''enabled'' (YBool True)"
    by (rule parse_enabled)
qed

text \<open>
  An unknown type between two entries without a type, and the document above, which
  has no \<open>enabled\<close> key.
\<close>

theorem unknown_type_skipped_witness:
  "parse_condition no_constructor (YDict [(''type'', YStr ''moon_phase'')]) =
     Inr (None, [UnknownConditionType (YStr ''moon_phase'')])
   \<and> parse_entries no_constructor
       ([YDict []] @ YDict [(''type'', YStr ''moon_phase'')] # [YDict []]) =
     Inr ([], [UnknownConditionType (YStr ''moon_phase'')])
   \<and> enabled (fst (projr (parse no_constructor moon_document))) = YBool True"
proof -
  have t: "map_of [(''type'', YStr ''moon_phase'')] ''type'' = Some (YStr ''moon_phase'') \<and>
           ''moon_phase'' \<noteq> [] \<and> ''moon_phase'' \<notin> set CONDITION_TYPES"
    by (simp add: CONDITION_TYPES_def)
  have e: "parse_condition no_constructor (YDict []) = Inr (None, [])"
    by (simp add: parse_condition_def as_dict_def dict_get_def falsy_def)
  obtain sys w where p: "parse no_constructor moon_document = Inr (sys, w)"
    by (simp add: parse_moon_document)
  have d: "dict_get moon_document ''enabled'' (YBool True) = YBool True"
    by (simp add: dict_get_def moon_document_def)
  show ?thesis
    using unknown_type_skipped [of "[(''type'', YStr ''moon_phase'')]" "''moon_phase''"
            no_constructor "[YDict []]" "[YDict []]" moon_document sys w] t p
    by (simp add: e d)
qed

section \<open>The swing detector under an appended bar\<close>

lemma swing_step_prefix: "prefix (swings st) (swings (swing_step uc c st i))"
  by (simp add: swing_step_def Let_def)

lemma swing_step_inv:
  assumes "swing_inv i st"
  shows "swing_inv (Suc i) (swing_step uc c st i)"
proof -
  have lt: "\<And>k. k < i \<Longrightarrow> k < Suc i" by simp
  show ?thesis
    using assms
    unfolding swing_inv_def swing_step_def Let_def
    by (auto simp: sorted_wrt_append split: if_splits intro: less_trans)
qed

text \<open>The step at bar \<open>i\<close> reads the table at \<open>i\<close> and at the cursors only.\<close>

lemma time_at_append:
  "j < length (bars c) \<Longrightarrow> time_at (c\<lparr>bars := bars c @ [b]\<rparr>) j = time_at c j"
  by (simp add: time_at_def nth_append)

lemma swing_step_append:
  assumes "swing_inv i st" and "i < length (bars c)"
  shows "swing_step uc (c\<lparr>bars := bars c @ [b]\<rparr>) st i = swing_step uc c st i"
proof -
  have l: "fst (lowest_since_high st) < length (bars c)"
    and h: "fst (highest_since_low st) < length (bars c)"
    using assms by (simp_all add: swing_inv_def)
  show ?thesis
    using assms(2) l h
    by (simp add: swing_step_def Let_def nth_append time_at_append)
qed

lemma swing_init_append:
  "bars c \<noteq> [] \<Longrightarrow> swing_init (c\<lparr>bars := bars c @ [b]\<rparr>) = swing_init c"
  by (simp add: swing_init_def nth_append)

lemma swing_init_inv: "swing_inv 1 (swing_init c)"
  by (simp add: swing_inv_def swing_init_def)

lemma swing_loop_upto:
  "swing_inv (Suc n) (foldl (swing_step uc c) (swing_init c) [1..<Suc n])"
proof (induction n)
  case 0
  then show ?case using swing_init_inv by simp
next
  case (Suc n)
  show ?case
  proof (cases "n = 0")
    case True
    then show ?thesis using swing_step_inv [OF swing_init_inv, of uc c] by simp
  next
    case False
    then have "[1..<Suc (Suc n)] = [1..<Suc n] @ [Suc n]" by simp
    then show ?thesis using swing_step_inv [OF Suc.IH] by simp
  qed
qed

lemma swing_loop_append_upto:
  assumes "n < length (bars c)"
  shows "foldl (swing_step uc (c\<lparr>bars := bars c @ [b]\<rparr>)) (swing_init c) [1..<Suc n] =
         foldl (swing_step uc c) (swing_init c) [1..<Suc n]"
  using assms
proof (induction n)
  case 0
  then show ?case by simp
next
  case (Suc n)
  then have eq: "foldl (swing_step uc (c\<lparr>bars := bars c @ [b]\<rparr>)) (swing_init c) [1..<Suc n] =
                 foldl (swing_step uc c) (swing_init c) [1..<Suc n]"
    by simp
  have up: "[1..<Suc (Suc n)] = [1..<Suc n] @ [Suc n]" by simp
  show ?case
    unfolding up foldl_append eq
    using swing_step_append [OF swing_loop_upto Suc.prems] by simp
qed

lemma swing_loop_inv:
  "bars c \<noteq> [] \<Longrightarrow> swing_inv (length (bars c)) (swing_loop uc c)"
  using swing_loop_upto [of "length (bars c) - 1" uc c]
  by (simp add: swing_loop_def)

lemma swing_loop_append:
  assumes "bars c \<noteq> []"
  shows "swing_loop uc (c\<lparr>bars := bars c @ [b]\<rparr>) =
         swing_step uc (c\<lparr>bars := bars c @ [b]\<rparr>) (swing_loop uc c) (length (bars c))"
proof -
  let ?c = "c\<lparr>bars := bars c @ [b]\<rparr>"
  obtain n where n: "length (bars c) = Suc n"
    using assms by (cases "bars c") simp_all
  then have n': "n < length (bars c)" by simp
  have up: "[1..<Suc (Suc n)] = [1..<Suc n] @ [Suc n]" by simp
  have "swing_loop uc ?c = foldl (swing_step uc ?c) (swing_init ?c) [1..<Suc (Suc n)]"
    by (simp add: swing_loop_def n del: upt_Suc)
  also have "\<dots> = foldl (swing_step uc ?c) (swing_init c) ([1..<Suc n] @ [Suc n])"
    by (simp only: up swing_init_append [OF assms])
  also have "\<dots> = swing_step uc ?c (foldl (swing_step uc ?c) (swing_init c) [1..<Suc n]) (Suc n)"
    by (simp only: foldl_append foldl.simps)
  also have "\<dots> = swing_step uc ?c (foldl (swing_step uc c) (swing_init c) [1..<Suc n]) (Suc n)"
    by (simp only: swing_loop_append_upto [OF n'])
  also have "\<dots> = swing_step uc ?c (swing_loop uc c) (length (bars c))"
    by (simp only: swing_loop_def n)
  finally show ?thesis .
qed

lemma swings_sorted:
  "bars c \<noteq> [] \<Longrightarrow> sorted_wrt (<) (map index (swings (swing_loop uc c)))"
  using swing_loop_inv [of c uc] by (simp add: swing_inv_def)

text \<open>The final sort of \<open>detect_swings\<close> changes nothing.\<close>

lemma detect_swings_unsorted:
  "detect_swings uc c = (if length (bars c) < 3 then [] else swings (swing_loop uc c))"
proof (cases "length (bars c) < 3")
  case True
  then show ?thesis by (simp add: detect_swings_def)
next
  case False
  then have "bars c \<noteq> []" by auto
  then have "sorted (map index (swings (swing_loop uc c)))"
    using swings_sorted strict_sorted_imp_sorted by blast
  then show ?thesis
    using False by (simp add: detect_swings_def sort_key_id_if_sorted)
qed


text \<open>
  Claim C4. For every candle table and every appended bar, the list of swings that
  \<open>detect_swings\<close> returns on the extended table has the list of the original table
  as a prefix: the swings emitted before are the same, in their index, price, kind,
  confirmation index, times and structure.
\<close>

theorem detect_swings_append_prefix:
  "prefix (detect_swings uc c) (detect_swings uc (c\<lparr>bars := bars c @ [b]\<rparr>))"
proof (cases "length (bars c) < 3")
  case True
  then show ?thesis by (simp add: detect_swings_def)
next
  case False
  then have ne: "bars c \<noteq> []" by auto
  show ?thesis
    using False
    by (simp add: detect_swings_unsorted swing_loop_append [OF ne] swing_step_prefix)
qed

subsection \<open>The price of a swing\<close>





section \<open>The ranges that the range detector returns\<close>

lemma create_range_two_swing_table:
  "create_range RANGE_DETECTOR_DEFAULT two_swing_table high_at_1 low_at_11 =
     Some (range_1_11 FORMING)"
  by code_simp

lemma detect_ranges_two_swing_table:
  "detect_ranges RANGE_DETECTOR_DEFAULT two_swing_table = []"
  by code_simp

lemma detect_ranges_two_touch:
  "detect_ranges two_touch_detector two_swing_table = [range_1_11 CONFIRMED]"
  by code_simp

lemma swings_two_swing_table:
  "detect_major_swings True two_swing_table = [high_at_1, low_at_11]"
  by code_simp

lemma create_range_None:
  "(create_range d c hs ls = None) =
     (max (index hs) (index ls) - min (index hs) (index ls) < min_range_bars d)"
  by (simp add: create_range_def Let_def split: sum.splits prod.splits)

lemma scan_touches_status:
  "scan_touches c rh rl tol is ht lt = Inl (i, s, ht', lt') \<Longrightarrow> s = BROKEN_UP \<or> s = BROKEN_DOWN"
  by (induction "is" arbitrary: ht lt) (auto simp: Let_def split: if_splits)

lemma create_range_touches:
  assumes "create_range d c hs ls = Some r" and "r_status r = FORMING"
  shows "total_touches r < min_touches d"
  using assms
  by (auto simp: create_range_def Let_def total_touches_def
           split: sum.splits prod.splits if_splits dest: scan_touches_status)

lemma candidate_touches:
  assumes "candidate d c lows swing = Some r" and "r_status r = FORMING"
  shows "total_touches r < min_touches d"
  using assms
  by (auto simp: candidate_def split: if_splits list.splits dest: create_range_touches)

lemma detect_ranges_filter:
  "detect_ranges d c =
     (if length (detect_major_swings (rd_use_close d) c) < 2 then []
      else filter (\<lambda>r. total_touches r \<ge> min_touches d)
             (List.map_filter
                (candidate d c (filter is_low (detect_major_swings (rd_use_close d) c)))
                (butlast (detect_major_swings (rd_use_close d) c))))"
proof -
  have h: "concat (map (\<lambda>swing. case f swing of None \<Rightarrow> []
                       | Some r \<Rightarrow> if is_valid r m then [r] else []) xs) =
        filter (\<lambda>r. total_touches r \<ge> m) (List.map_filter f xs)"
    for f :: "SwingPoint \<Rightarrow> Range option" and m xs
    by (induction xs) (auto simp: List.map_filter_simps is_valid_def split: option.splits)
  show ?thesis
    unfolding detect_ranges_def Let_def
    by (simp only: h)
qed

lemma detect_ranges_member:
  assumes "r \<in> set (detect_ranges d c)"
  shows "total_touches r \<ge> min_touches d \<and> r_status r \<noteq> FORMING"
proof -
  from assms have v: "total_touches r \<ge> min_touches d"
    by (auto simp: detect_ranges_filter split: if_splits)
  from assms obtain swing where
    "candidate d c (filter is_low (detect_major_swings (rd_use_close d) c)) swing = Some r"
    by (auto simp: detect_ranges_filter List.map_filter_def split: if_splits)
  with v show ?thesis
    using candidate_touches by fastforce
qed

text \<open>
  Claim C5, as the claim states it: \<open>detect_ranges\<close> returns every candidate range that
  passes the check of \<open>min_range_bars\<close>, those with fewer than \<open>min_touches\<close> touches
  (status Forming) included. On the table of thirteen bars the default detector finds
  the swing high at bar 1 and the swing low at bar 11, ten bars apart, builds their
  range with two touches and the status Forming, and returns no range.
\<close>

theorem detect_ranges_forming_counterexample:
  "detect_major_swings (rd_use_close RANGE_DETECTOR_DEFAULT) two_swing_table =
     [high_at_1, low_at_11]
   \<and> \<not> index low_at_11 - index high_at_1 < min_range_bars RANGE_DETECTOR_DEFAULT
   \<and> create_range RANGE_DETECTOR_DEFAULT two_swing_table high_at_1 low_at_11 =
       Some (range_1_11 FORMING)
   \<and> detect_ranges RANGE_DETECTOR_DEFAULT two_swing_table = []
   \<and> detect_current_range RANGE_DETECTOR_DEFAULT two_swing_table = None"
proof (intro conjI)
  show "detect_major_swings (rd_use_close RANGE_DETECTOR_DEFAULT) two_swing_table =
          [high_at_1, low_at_11]"
    using swings_two_swing_table by (simp add: RANGE_DETECTOR_DEFAULT_def)
  show "\<not> index low_at_11 - index high_at_1 < min_range_bars RANGE_DETECTOR_DEFAULT"
    by (simp add: RANGE_DETECTOR_DEFAULT_def high_at_1_def low_at_11_def)
  show "create_range RANGE_DETECTOR_DEFAULT two_swing_table high_at_1 low_at_11 =
          Some (range_1_11 FORMING)"
    by (rule create_range_two_swing_table)
  show "detect_ranges RANGE_DETECTOR_DEFAULT two_swing_table = []"
    by (rule detect_ranges_two_swing_table)
  show "detect_current_range RANGE_DETECTOR_DEFAULT two_swing_table = None"
    by (simp add: detect_current_range_def detect_ranges_two_swing_table)
qed

text \<open>
  Claim C5, amended. \<open>detect_ranges\<close> returns, of the candidate ranges that pass the
  check of \<open>min_range_bars\<close> (one for every swing high but the last swing, built with
  the first later swing low), exactly those with at least \<open>min_touches\<close> touches, so
  that none of the ranges returned is Forming; \<open>detect_current_range\<close> returns the last
  range returned whose status is Forming or Confirmed, which is then Confirmed, or None
  when there is none.
\<close>

theorem detect_ranges_valid_only:
  "detect_ranges d c =
     (if length (detect_major_swings (rd_use_close d) c) < 2 then []
      else filter (\<lambda>r. total_touches r \<ge> min_touches d)
             (List.map_filter
                (candidate d c (filter is_low (detect_major_swings (rd_use_close d) c)))
                (butlast (detect_major_swings (rd_use_close d) c))))
   \<and> (\<forall>swing low_swings.
        (candidate d c low_swings swing = None) =
          (\<not> is_high swing \<or> filter (\<lambda>s. index s > index swing) low_swings = [] \<or>
           index (hd (filter (\<lambda>s. index s > index swing) low_swings)) - index swing
             < min_range_bars d))
   \<and> (\<forall>r \<in> set (detect_ranges d c).
        total_touches r \<ge> min_touches d \<and> r_status r \<noteq> FORMING)
   \<and> detect_current_range d c =
       (case filter (\<lambda>r. r_status r = FORMING \<or> r_status r = CONFIRMED) (detect_ranges d c) of
          [] \<Rightarrow> None
        | r # rs \<Rightarrow> Some (last (r # rs)))
   \<and> (\<forall>r. detect_current_range d c = Some r \<longrightarrow>
        r \<in> set (detect_ranges d c) \<and> r_status r = CONFIRMED)"
proof (intro conjI allI ballI impI)
  show "detect_ranges d c =
     (if length (detect_major_swings (rd_use_close d) c) < 2 then []
      else filter (\<lambda>r. total_touches r \<ge> min_touches d)
             (List.map_filter
                (candidate d c (filter is_low (detect_major_swings (rd_use_close d) c)))
                (butlast (detect_major_swings (rd_use_close d) c))))"
    by (rule detect_ranges_filter)
next
  fix swing low_swings
  show "(candidate d c low_swings swing = None) =
          (\<not> is_high swing \<or> filter (\<lambda>s. index s > index swing) low_swings = [] \<or>
           index (hd (filter (\<lambda>s. index s > index swing) low_swings)) - index swing
             < min_range_bars d)"
  proof (cases "filter (\<lambda>s. index s > index swing) low_swings")
    case Nil
    then show ?thesis by (simp add: candidate_def)
  next
    case (Cons l ls)
    then have "l \<in> set (filter (\<lambda>s. index s > index swing) low_swings)" by simp
    then have "index swing < index l" by simp
    then show ?thesis
      using Cons by (simp add: candidate_def create_range_None max_def min_def)
  qed
next
  fix r assume "r \<in> set (detect_ranges d c)"
  then show "total_touches r \<ge> min_touches d" and "r_status r \<noteq> FORMING"
    using detect_ranges_member by blast+
next
  have a: "is_active = (\<lambda>r. r_status r = FORMING \<or> r_status r = CONFIRMED)"
    by (rule ext) (simp add: is_active_def)
  show "detect_current_range d c =
       (case filter (\<lambda>r. r_status r = FORMING \<or> r_status r = CONFIRMED) (detect_ranges d c) of
          [] \<Rightarrow> None
        | r # rs \<Rightarrow> Some (last (r # rs)))"
    by (simp add: detect_current_range_def Let_def a split: list.splits)
next
  fix r assume s: "detect_current_range d c = Some r"
  then have "r \<in> set (filter is_active (detect_ranges d c))"
    by (auto simp: detect_current_range_def Let_def split: if_splits dest: last_in_set)
  then have m: "r \<in> set (detect_ranges d c)" and "is_active r" by simp_all
  then show "r \<in> set (detect_ranges d c)" and "r_status r = CONFIRMED"
    using detect_ranges_member [OF m] by (auto simp: is_active_def)
qed

text \<open>
  On the same table, the detector that asks for two touches returns the range, with the
  status Confirmed, and it is the current range.
\<close>

theorem detect_ranges_valid_only_witness:
  "detect_ranges two_touch_detector two_swing_table = [range_1_11 CONFIRMED]
   \<and> candidate two_touch_detector two_swing_table [low_at_11] high_at_1 \<noteq> None
   \<and> min_touches two_touch_detector \<le> total_touches (range_1_11 CONFIRMED)
   \<and> detect_current_range two_touch_detector two_swing_table = Some (range_1_11 CONFIRMED)
   \<and> r_status (range_1_11 CONFIRMED) = CONFIRMED"
proof -
  note t = detect_ranges_valid_only [of two_touch_detector two_swing_table]
  note e = detect_ranges_two_touch
  have c: "(candidate two_touch_detector two_swing_table [low_at_11] high_at_1 = None) =
          (\<not> is_high high_at_1 \<or> filter (\<lambda>s. index s > index high_at_1) [low_at_11] = [] \<or>
           index (hd (filter (\<lambda>s. index s > index high_at_1) [low_at_11])) - index high_at_1
             < min_range_bars two_touch_detector)"
    using t [THEN conjunct2, THEN conjunct1] by blast
  have m: "\<forall>r \<in> set (detect_ranges two_touch_detector two_swing_table).
             total_touches r \<ge> min_touches two_touch_detector \<and> r_status r \<noteq> FORMING"
    using t [THEN conjunct2, THEN conjunct2, THEN conjunct1] .
  have d: "detect_current_range two_touch_detector two_swing_table =
       (case filter (\<lambda>r. r_status r = FORMING \<or> r_status r = CONFIRMED)
               (detect_ranges two_touch_detector two_swing_table) of
          [] \<Rightarrow> None
        | r # rs \<Rightarrow> Some (last (r # rs)))"
    using t [THEN conjunct2, THEN conjunct2, THEN conjunct2, THEN conjunct1] .
  have s: "r_status (range_1_11 CONFIRMED) = CONFIRMED"
    by (simp add: range_1_11_def)
  have 1: "candidate two_touch_detector two_swing_table [low_at_11] high_at_1 \<noteq> None"
    unfolding c
    by (simp add: two_touch_detector_def RANGE_DETECTOR_DEFAULT_def high_at_1_def
          low_at_11_def is_high_def)
  have 2: "min_touches two_touch_detector \<le> total_touches (range_1_11 CONFIRMED)"
    using m by (simp add: e)
  have 3: "detect_current_range two_touch_detector two_swing_table =
             Some (range_1_11 CONFIRMED)"
    unfolding d by (simp add: e s)
  show ?thesis
    using e 1 2 3 s by blast
qed

section \<open>Breaks of structure\<close>

subsection \<open>The first bar beyond the level\<close>








subsection \<open>The bar of a break lies after the swing\<close>



subsection \<open>One break for a swing\<close>









subsection \<open>What a break of the result says\<close>













end
